theory Spec2Isabelle
  imports Main
begin

section \<open>Common types\<close>

text \<open>
  Dates are JavaScript timestamps (milliseconds since the epoch), document ids are
  natural numbers. Every handler reads the clock several times within a few
  milliseconds; the model passes one reading \<open>now\<close> to each operation.
\<close>

type_synonym time = int
type_synonym objectId = nat

datatype userType = Doctor | Patient | Admin

datatype store_error = ValidationError | DuplicateKey

definition newObjectId :: "objectId list \<Rightarrow> objectId" where
  "newObjectId ids = Suc (fold max ids 0)"

definition days :: "int \<Rightarrow> int" where
  "days n = n * 24 * 60 * 60 * 1000"

section \<open>Session model (Session.js, in src/models/Patient.js)\<close>

record deviceInfo =
  browser :: string
  os :: string
  device :: string

record session =
  sid :: objectId
  userId :: objectId
  userType :: userType
  token :: string
  deviceInfo :: deviceInfo
  ipAddress :: string
  lastActivity :: time
  expiresAt :: time
  isActive :: bool
  revokedReason :: "string option"
  createdAt :: time
  updatedAt :: time

text \<open>
  The fields a caller hands to \<open>Session.createSession\<close>; \<open>isActive\<close> and
  \<open>revokedReason\<close> take their schema defaults, the timestamps are set on save.
\<close>

record sessionData =
  sd_userId :: objectId
  sd_userType :: userType
  sd_token :: string
  sd_deviceInfo :: deviceInfo
  sd_ipAddress :: string
  sd_lastActivity :: time
  sd_expiresAt :: time

text \<open>
  \<open>createSession\<close>: \<open>new this(sessionData); await session.save()\<close>. The save
  throws when a \<open>required\<close> string is empty (token, ipAddress) or when the unique
  index on \<open>token\<close> already holds the value.
\<close>

definition createSession ::
  "time \<Rightarrow> sessionData \<Rightarrow> session list \<Rightarrow> store_error + (session \<times> session list)" where
  "createSession now d ss =
     (if sd_token d = [] \<or> sd_ipAddress d = [] then Inl ValidationError
      else if sd_token d \<in> set (map token ss) then Inl DuplicateKey
      else
        let s = \<lparr> sid = newObjectId (map sid ss),
                  userId = sd_userId d,
                  userType = sd_userType d,
                  token = sd_token d,
                  deviceInfo = sd_deviceInfo d,
                  ipAddress = sd_ipAddress d,
                  lastActivity = sd_lastActivity d,
                  expiresAt = sd_expiresAt d,
                  isActive = True,
                  revokedReason = None,
                  createdAt = now,
                  updatedAt = now \<rparr>
        in Inr (s, ss @ [s]))"

text \<open>The filter \<open>{ userId, userType, isActive: true, expiresAt: { $gt: new Date() } }\<close>.\<close>

definition activeUnexpired :: "time \<Rightarrow> objectId \<Rightarrow> userType \<Rightarrow> session \<Rightarrow> bool" where
  "activeUnexpired now uid ut s \<longleftrightarrow>
     userId s = uid \<and> userType s = ut \<and> isActive s \<and> expiresAt s > now"


record enforcement =
  revokedCount :: nat
  previousDeviceLoggedOut :: bool

text \<open>
  \<open>enforceSingleDevice\<close>: counts the active unexpired sessions of the user, then
  \<open>updateMany({ userId, userType, isActive: true }, { isActive: false, revokedReason })\<close>.
  The update filter has no expiry condition.
\<close>

definition singleDeviceReason :: string where
  "singleDeviceReason = ''New device login - single device enforcement''"

definition enforceSingleDevice ::
  "time \<Rightarrow> objectId \<Rightarrow> userType \<Rightarrow> session list \<Rightarrow> enforcement \<times> session list" where
  "enforceSingleDevice now uid ut ss =
     (let activeSessionsCount = length (filter (activeUnexpired now uid ut) ss);
          hit = (\<lambda>s. userId s = uid \<and> userType s = ut \<and> isActive s);
          ss' = map (\<lambda>s. if hit s
                          then s\<lparr> isActive := False,
                                  revokedReason := Some singleDeviceReason,
                                  updatedAt := now \<rparr>
                          else s) ss
      in (\<lparr> revokedCount = length (filter hit ss),
            previousDeviceLoggedOut = (activeSessionsCount > 0) \<rparr>, ss'))"

text \<open>
  \<open>cleanupExpired\<close>:
  \<open>updateMany({ expiresAt: { $lt: new Date() }, isActive: true }, { isActive: false })\<close>.
\<close>

definition cleanupExpired :: "time \<Rightarrow> session list \<Rightarrow> session list" where
  "cleanupExpired now ss =
     map (\<lambda>s. if expiresAt s < now \<and> isActive s
               then s\<lparr> isActive := False, updatedAt := now \<rparr>
               else s) ss"

text \<open>
  \<open>deleteOldSessions\<close>: the cutoff is \<open>daysOld\<close> calendar days before now
  (\<open>setDate(getDate() - daysOld)\<close>, taken as \<open>daysOld\<close> times 24 hours), then
  \<open>deleteMany({ isActive: false, updatedAt: { $lt: cutoffDate } })\<close>.
\<close>

definition deleteOldSessions :: "time \<Rightarrow> int \<Rightarrow> session list \<Rightarrow> session list" where
  "deleteOldSessions now daysOld ss =
     (let cutoffDate = now - days daysOld
      in filter (\<lambda>s. \<not> (\<not> isActive s \<and> updatedAt s < cutoffDate)) ss)"

section \<open>Token issuance (utils.js, in src/lib/sessionCleanup.js)\<close>

text \<open>
  What \<open>generateToken\<close> reads from the Express request: the address returned by
  \<open>getClientIp(req)\<close> and the device information returned by
  \<open>parseUserAgent(getUserAgent(req))\<close>.
\<close>

record request =
  clientIp :: string
  clientDevice :: deviceInfo

record cookie =
  cookieName :: string
  cookieValue :: string
  maxAge :: int
  httpOnly :: bool
  sameSite :: string
  secure :: bool

text \<open>The mapping from the role in the token to the session's \<open>userType\<close>.\<close>

definition roleUserType :: "string \<Rightarrow> userType" where
  "roleUserType role =
     (if role = ''doctor'' then Doctor
      else if role = ''super_admin'' \<or> role = ''user_management'' then Admin
      else Patient)"

text \<open>
  \<open>generateToken(userId, role, res, req = null)\<close>. \<open>signed\<close> is what
  \<open>jwt.sign\<close> produces (\<open>None\<close> when it throws); signing is outside the
  repository. The result is the returned token or the rethrown error, the cookie
  set on the response, and the session collection afterwards. An error inside the
  inner \<open>try\<close> (enforcement or session creation) is logged and swallowed.
\<close>

definition generateToken ::
  "time \<Rightarrow> bool \<Rightarrow> string option \<Rightarrow> objectId \<Rightarrow> string \<Rightarrow> request option \<Rightarrow> session list
     \<Rightarrow> (string + string) \<times> cookie option \<times> session list" where
  "generateToken now isProduction signed uid role req ss =
     (case signed of
        None \<Rightarrow> (Inl ''Failed to generate authentication token'', None, ss)
      | Some tok \<Rightarrow>
          let c = \<lparr> cookieName = ''token'', cookieValue = tok,
                    maxAge = 7 * 24 * 60 * 60 * 1000,
                    httpOnly = True, sameSite = ''strict'', secure = isProduction \<rparr>;
              ss' = (case req of
                       None \<Rightarrow> ss
                     | Some r \<Rightarrow>
                         let ut = roleUserType role;
                             ss1 = snd (enforceSingleDevice now uid ut ss)
                         in case createSession now
                                   \<lparr> sd_userId = uid, sd_userType = ut, sd_token = tok,
                                     sd_deviceInfo = clientDevice r,
                                     sd_ipAddress = clientIp r,
                                     sd_lastActivity = now,
                                     sd_expiresAt = now + days 7 \<rparr> ss1 of
                              Inl e \<Rightarrow> ss1
                            | Inr (s, ss2) \<Rightarrow> ss2)
          in (Inr tok, Some c, ss'))"

text \<open>Whether \<open>createSession\<close> accepts the record \<open>generateToken\<close> builds.\<close>

definition sessionPersistable :: "string \<Rightarrow> request \<Rightarrow> session list \<Rightarrow> bool" where
  "sessionPersistable tok r ss \<longleftrightarrow>
     tok \<noteq> [] \<and> clientIp r \<noteq> [] \<and> tok \<notin> set (map token ss)"

section \<open>One-time passcodes (src/models/OTP.js)\<close>

record otpDoc =
  otpId :: objectId
  otpEmail :: string
  otp :: string
  otpRole :: string
  purpose :: string
  verified :: bool
  attempts :: nat
  otpExpiresAt :: time
  otpCreatedAt :: time

definition otpRoles :: "string list" where
  "otpRoles = [''doctor'', ''patient'']"

definition otpPurposes :: "string list" where
  "otpPurposes = [''registration'', ''login'', ''password-reset'']"

definition isExpired :: "time \<Rightarrow> otpDoc \<Rightarrow> bool" where
  "isExpired now d \<longleftrightarrow> now > otpExpiresAt d"

definition canAttempt :: "otpDoc \<Rightarrow> bool" where
  "canAttempt d \<longleftrightarrow> attempts d < 3"

text \<open>
  The instance methods save the document they are called on; in the collection
  this is an update of the record with that id. \<open>incrementAttempts\<close> is only
  called under \<open>canAttempt\<close>, so the schema bound \<open>max: 3\<close> is never exceeded by it.
\<close>

definition incrementAttempts :: "otpDoc \<Rightarrow> otpDoc list \<Rightarrow> otpDoc list" where
  "incrementAttempts d ds =
     map (\<lambda>x. if otpId x = otpId d then x\<lparr> attempts := attempts d + 1 \<rparr> else x) ds"

definition markAsVerified :: "otpDoc \<Rightarrow> otpDoc list \<Rightarrow> otpDoc list" where
  "markAsVerified d ds =
     map (\<lambda>x. if otpId x = otpId d then x\<lparr> verified := True \<rparr> else x) ds"

definition deleteOne :: "otpDoc \<Rightarrow> otpDoc list \<Rightarrow> otpDoc list" where
  "deleteOne d ds = filter (\<lambda>x. otpId x \<noteq> otpId d) ds"

text \<open>
  \<open>OTP.create\<close>: the schema validators (required strings, the enums of \<open>role\<close>
  and \<open>purpose\<close>) run before the insert.
\<close>

definition createOtpDoc ::
  "time \<Rightarrow> string \<Rightarrow> string \<Rightarrow> string \<Rightarrow> string \<Rightarrow> otpDoc list
     \<Rightarrow> store_error + (otpDoc \<times> otpDoc list)" where
  "createOtpDoc now email' role code purpose' ds =
     (if email' = [] \<or> code = [] \<or> role \<notin> set otpRoles \<or> purpose' \<notin> set otpPurposes
      then Inl ValidationError
      else
        let d = \<lparr> otpId = newObjectId (map otpId ds), otpEmail = email', otp = code,
                  otpRole = role, purpose = purpose', verified = False, attempts = 0,
                  otpExpiresAt = now + 10 * 60 * 1000, otpCreatedAt = now \<rparr>
        in Inr (d, ds @ [d]))"

text \<open>
  \<open>createOTP\<close>: deletes the unverified codes of (email, purpose), then creates the
  new one. \<open>code\<close> is the value \<open>generateOTP\<close> draws at random. When the creation
  throws, the deletion has already happened.
\<close>

definition createOTP ::
  "time \<Rightarrow> string \<Rightarrow> string \<Rightarrow> string \<Rightarrow> string \<Rightarrow> otpDoc list
     \<Rightarrow> (store_error + otpDoc) \<times> otpDoc list" where
  "createOTP now code email' role purpose' ds =
     (let ds1 = filter (\<lambda>x. \<not> (otpEmail x = email' \<and> purpose x = purpose' \<and> \<not> verified x)) ds
      in case createOtpDoc now email' role code purpose' ds1 of
           Inl e \<Rightarrow> (Inl e, ds1)
         | Inr (d, ds2) \<Rightarrow> (Inr d, ds2))"

text \<open>
  \<open>findOne(filter).sort({ createdAt: -1 })\<close>: the matching record created last;
  among records created at the same instant the model takes the first in
  collection order.
\<close>

fun latestOtp :: "otpDoc list \<Rightarrow> otpDoc option" where
  "latestOtp [] = None"
| "latestOtp (d # ds) =
     (case latestOtp ds of
        None \<Rightarrow> Some d
      | Some e \<Rightarrow> if otpCreatedAt e > otpCreatedAt d then Some e else Some d)"

datatype verification =
    OtpNotFound
  | OtpExpired
  | OtpAttemptsExceeded
  | OtpInvalid nat
  | OtpVerified otpDoc




text \<open>
  The static \<open>OTP.verifyOTP(email, otp, purpose)\<close>, with its checks in the order
  of the source: not found, expired, attempts exhausted, code mismatch, success.
  \<open>OtpInvalid\<close> carries \<open>3 - otpDoc.attempts\<close> read after the increment. The
  controller of the same name is \<open>verifyOTP\<close> below.
\<close>

definition verifyOTP_static ::
  "time \<Rightarrow> string \<Rightarrow> string \<Rightarrow> string \<Rightarrow> otpDoc list \<Rightarrow> verification \<times> otpDoc list" where
  "verifyOTP_static now email' code purpose' ds =
     (case latestOtp (filter (\<lambda>x. otpEmail x = email' \<and> purpose x = purpose' \<and> \<not> verified x) ds) of
        None \<Rightarrow> (OtpNotFound, ds)
      | Some d \<Rightarrow>
          if isExpired now d then (OtpExpired, deleteOne d ds)
          else if \<not> canAttempt d then (OtpAttemptsExceeded, deleteOne d ds)
          else if otp d \<noteq> code then (OtpInvalid (3 - (attempts d + 1)), incrementAttempts d ds)
          else (OtpVerified (d\<lparr> verified := True \<rparr>), markAsVerified d ds))"

section \<open>Accounts (Doctor.js, src/models/Patient.js, src/models/Admin.js)\<close>

text \<open>
  The stored password is a bcrypt hash; the model keeps it as an opaque value
  built from the plaintext. E-mail addresses are taken as already normalised (the
  schemas lower-case and trim them on write and on query).
\<close>

datatype pwhash = Bcrypt string

text \<open>
  The Doctor and Patient schemas share the authentication fields below; the
  role-specific profile fields play no part in the authentication flows.
\<close>

record account =
  accId :: objectId
  name :: string
  email :: string
  password :: pwhash
  isEmailVerified :: bool
  emailVerifiedAt :: "time option"
  passwordResetToken :: "string option"
  passwordResetExpires :: "time option"
  passwordChangedAt :: "time option"
  passwordResetCount :: nat
  passwordResetUsedAt :: "time option"
  accIsActive :: bool
  lastLogin :: "time option"
  lastLogout :: "time option"

text \<open>
  The Admin schema declares only these paths. It has no \<open>passwordResetCount\<close>,
  \<open>passwordResetUsedAt\<close>, \<open>passwordChangedAt\<close> or reset-token path, so a value
  assigned to one of them on an Admin document is not persisted by \<open>save()\<close>.
\<close>

record admin =
  adminId :: objectId
  adminName :: string
  adminEmail :: string
  adminPassword :: pwhash
  adminRole :: string
  adminIsActive :: bool
  lastlogin :: "time option"
  adminLastLogout :: "time option"

datatype user = AccountUser account | AdminUser admin

datatype userModel = DoctorModel | PatientModel | AdminModel

section \<open>Audit log (src/models/AuthLog.js, logAuthEvent)\<close>

text \<open>
  The schema keeps neither the address nor the user agent; the free-form
  \<open>metadata\<close> is left out of the model.
\<close>

record authLog =
  logUserId :: "objectId option"
  logUserType :: "userType option"
  logEmail :: string
  action :: string
  logSuccess :: bool
  failureReason :: "string option"
  logCreatedAt :: time

definition authActions :: "string list" where
  "authActions = [''login'', ''logout'', ''register'', ''failed_login'',
     ''otp_verification'', ''failed_otp'', ''otp_resend'', ''password_reset_request'',
     ''password_reset_success'', ''password_reset_failed'', ''password_change'',
     ''admin_login'', ''failed_admin_login'']"

text \<open>
  \<open>logAuthEvent\<close> hands the entry to \<open>AuthLog.logEvent\<close>, which saves it and
  swallows every error: an entry that fails the schema (no e-mail, an action
  outside the enum) is silently dropped.
\<close>

definition logAuthEvent ::
  "time \<Rightarrow> string \<Rightarrow> string \<Rightarrow> bool \<Rightarrow> objectId option \<Rightarrow> userType option \<Rightarrow> string option
     \<Rightarrow> authLog list \<Rightarrow> authLog list" where
  "logAuthEvent now action' email' success' uid ut reason ls =
     (if email' = [] \<or> action' \<notin> set authActions then ls
      else ls @ [\<lparr> logUserId = uid, logUserType = ut, logEmail = email', action = action',
                   logSuccess = success', failureReason = reason, logCreatedAt = now \<rparr>])"

section \<open>The database and HTTP responses\<close>

record db =
  doctors :: "account list"
  patients :: "account list"
  admins :: "admin list"
  otps :: "otpDoc list"
  sessions :: "session list"
  authLogs :: "authLog list"

text \<open>
  Of a JSON response the model keeps the status, the \<open>success\<close> flag, the
  \<open>message\<close> and the cookie set on the way.
\<close>

record response =
  status :: nat
  success :: bool
  message :: string
  resCookie :: "cookie option"

definition respond :: "nat \<Rightarrow> bool \<Rightarrow> string \<Rightarrow> response" where
  "respond st ok msg = \<lparr> status = st, success = ok, message = msg, resCookie = None \<rparr>"

definition getUserModel :: "string \<Rightarrow> userModel" where
  "getUserModel role =
     (if role = ''doctor'' then DoctorModel
      else if role = ''patient'' then PatientModel
      else AdminModel)"

definition getUserType :: "string \<Rightarrow> userType" where
  "getUserType role =
     (if role = ''doctor'' then Doctor
      else if role = ''patient'' then Patient
      else Admin)"

text \<open>\<open>UserModel.findOne({ email })\<close>.\<close>

definition findOneByEmail :: "userModel \<Rightarrow> string \<Rightarrow> db \<Rightarrow> user option" where
  "findOneByEmail m e d =
     (case m of
        DoctorModel \<Rightarrow> map_option AccountUser (find (\<lambda>a. email a = e) (doctors d))
      | PatientModel \<Rightarrow> map_option AccountUser (find (\<lambda>a. email a = e) (patients d))
      | AdminModel \<Rightarrow> map_option AdminUser (find (\<lambda>a. adminEmail a = e) (admins d)))"

definition userId_of :: "user \<Rightarrow> objectId" where
  "userId_of u = (case u of AccountUser a \<Rightarrow> accId a | AdminUser a \<Rightarrow> adminId a)"

text \<open>
  \<open>user.passwordResetCount\<close> as JavaScript reads it: the number on a Doctor or
  Patient document, \<open>undefined\<close> on an Admin document.
\<close>

definition resetCount_of :: "user \<Rightarrow> nat option" where
  "resetCount_of u = (case u of AccountUser a \<Rightarrow> Some (passwordResetCount a) | AdminUser a \<Rightarrow> None)"

section \<open>Authentication controller (authController.js, in src/controllers/adminController.js)\<close>

text \<open>\<open>role === 'doctor' ? Doctor : Patient\<close>, as a collection of the database.\<close>

definition roleAccounts :: "string \<Rightarrow> db \<Rightarrow> account list" where
  "roleAccounts role d = (if role = ''doctor'' then doctors d else patients d)"

definition setRoleAccounts :: "string \<Rightarrow> account list \<Rightarrow> db \<Rightarrow> db" where
  "setRoleAccounts role as d =
     (if role = ''doctor'' then d\<lparr> doctors := as \<rparr> else d\<lparr> patients := as \<rparr>)"


subsection \<open>register\<close>

text \<open>
  The request body; \<open>rb_additionalValid\<close> says whether the role-specific fields
  spread into the new document pass the schema of the chosen model (the Doctor
  schema requires specialization, experience and qualification). The model covers
  bodies whose additional fields are profile fields.
\<close>

record registerBody =
  rb_name :: string
  rb_email :: string
  rb_password :: string
  rb_role :: string
  rb_additionalValid :: bool

definition newAccount :: "objectId \<Rightarrow> registerBody \<Rightarrow> account" where
  "newAccount i b =
     \<lparr> accId = i, name = rb_name b, email = rb_email b, password = Bcrypt (rb_password b),
       isEmailVerified = False, emailVerifiedAt = None, passwordResetToken = None,
       passwordResetExpires = None, passwordChangedAt = None, passwordResetCount = 0,
       passwordResetUsedAt = None, accIsActive = True, lastLogin = None, lastLogout = None \<rparr>"

text \<open>
  \<open>code\<close> is the passcode drawn at random, \<open>emailOk\<close> the \<open>success\<close> flag of
  \<open>sendOTPEmail\<close>, which reports a failed delivery and does not throw.
\<close>

definition register :: "time \<Rightarrow> string \<Rightarrow> bool \<Rightarrow> registerBody \<Rightarrow> db \<Rightarrow> response \<times> db" where
  "register now code emailOk b d =
     (let existingDoctor = find (\<lambda>a. email a = rb_email b) (doctors d);
          existingPatient = find (\<lambda>a. email a = rb_email b) (patients d)
      in if existingDoctor \<noteq> None \<or> existingPatient \<noteq> None then
           (respond 400 False ''User already exists with this email'',
            d\<lparr> authLogs := logAuthEvent now ''register'' (rb_email b) False None None
                               (Some ''Email already registered'') (authLogs d) \<rparr>)
         else if rb_name b = [] \<or> rb_email b = [] \<or> rb_password b = [] \<or> \<not> rb_additionalValid b then
           (respond 500 False ''Error in registration process'', d)
         else
           let u = newAccount (newObjectId (map accId (roleAccounts (rb_role b) d))) b;
               d1 = setRoleAccounts (rb_role b) (roleAccounts (rb_role b) d @ [u]) d
           in case createOTP now code (rb_email b) (rb_role b) ''registration'' (otps d1) of
                (Inl e, ds) \<Rightarrow> (respond 500 False ''Error in registration process'', d1\<lparr> otps := ds \<rparr>)
              | (Inr od, ds) \<Rightarrow>
                  if \<not> emailOk then
                    (respond 201 True
                       ''Registration successful. Email service temporarily unavailable. Please contact support for OTP.'',
                     d1\<lparr> otps := ds \<rparr>)
                  else
                    (respond 201 True
                       ''Registration successful! Please check your email for the OTP to verify your account.'',
                     d1\<lparr> otps := ds,
                         authLogs := logAuthEvent now ''register'' (rb_email b) True (Some (accId u))
                                       (Some (if rb_role b = ''doctor'' then Doctor else Patient)) None
                                       (authLogs d1) \<rparr>))"

subsection \<open>verifyOTP\<close>



subsection \<open>forgotPassword\<close>

definition genericResetMessage :: string where
  "genericResetMessage =
     ''If an account exists with this email, a password reset OTP has been sent.''"

definition resetLimitMessage :: string where
  "resetLimitMessage =
     ''Your 1 attempt for password reset has been completed. You cannot reset your password again. Please contact support if you need assistance.''"

definition otpSentMessage :: string where
  "otpSentMessage = ''Password reset OTP sent to your email. Please check your inbox.''"

text \<open>The text of the validation error thrown by \<open>OTP.create\<close>, abbreviated.\<close>

definition otpValidationMessage :: string where
  "otpValidationMessage = ''OTP validation failed''"

text \<open>
  \<open>code\<close> is the passcode drawn at random. \<open>sendOTPEmail\<close> reports a failed
  delivery in its result, which this handler does not read, so the delivery has no
  influence on the outcome. The audit action \<open>password_reset_otp_sent\<close> of the
  success path is not in the enum of the log schema.
\<close>

definition forgotPassword :: "time \<Rightarrow> string \<Rightarrow> string \<Rightarrow> string \<Rightarrow> db \<Rightarrow> response \<times> db" where
  "forgotPassword now code email' role d =
     (case findOneByEmail (getUserModel role) email' d of
        None \<Rightarrow>
          (respond 400 False genericResetMessage,
           d\<lparr> authLogs := logAuthEvent now ''password_reset_request'' email' False None None
                              (Some ''User not found'') (authLogs d) \<rparr>)
      | Some u \<Rightarrow>
          if (case resetCount_of u of None \<Rightarrow> False | Some n \<Rightarrow> n \<noteq> 0 \<and> n \<ge> 1) then
            (respond 403 False resetLimitMessage,
             d\<lparr> authLogs := logAuthEvent now ''password_reset_request'' email' False
                                (Some (userId_of u)) (Some (getUserType role))
                                (Some ''Password reset limit exceeded (lifetime limit: 1)'')
                                (authLogs d) \<rparr>)
          else
            let ds1 = filter (\<lambda>x. \<not> (otpEmail x = email' \<and> purpose x = ''password-reset'')) (otps d)
            in case createOtpDoc now email' role code ''password-reset'' ds1 of
                 Inl e \<Rightarrow> (respond 500 False otpValidationMessage, d\<lparr> otps := ds1 \<rparr>)
               | Inr (od, ds2) \<Rightarrow>
                   (respond 200 True otpSentMessage,
                    d\<lparr> otps := ds2,
                        authLogs := logAuthEvent now ''password_reset_otp_sent'' email' True
                                      (Some (userId_of u)) (Some (getUserType role)) None
                                      (authLogs d) \<rparr>))"

subsection \<open>resetPassword\<close>

record resetBody =
  rp_email :: string
  rp_otp :: string
  rp_password :: string
  rp_confirmPassword :: string
  rp_role :: string

text \<open>
  The assignments \<open>resetPassword\<close> makes on the user document before \<open>save()\<close>.
  On an Admin document only \<open>password\<close> is a schema path.
\<close>

definition applyReset :: "time \<Rightarrow> string \<Rightarrow> user \<Rightarrow> user" where
  "applyReset now pw u =
     (case u of
        AccountUser a \<Rightarrow>
          let hasToken = (case passwordResetToken a of None \<Rightarrow> False | Some t \<Rightarrow> t \<noteq> [])
          in AccountUser (a\<lparr> password := Bcrypt pw,
                             passwordChangedAt := Some now,
                             passwordResetCount := passwordResetCount a + 1,
                             passwordResetUsedAt := Some now,
                             passwordResetToken := (if hasToken then None else passwordResetToken a),
                             passwordResetExpires := (if hasToken then None else passwordResetExpires a) \<rparr>)
      | AdminUser a \<Rightarrow> AdminUser (a\<lparr> adminPassword := Bcrypt pw \<rparr>))"

text \<open>
  \<open>user.save()\<close>: throws when the plaintext fails the schema (\<open>required\<close> and
  \<open>minlength: 1\<close> for doctors and patients, \<open>minlength: 6\<close> for admins) or when the
  write itself fails (\<open>persistOk\<close> false); otherwise replaces the stored document.
\<close>

definition saveUser :: "bool \<Rightarrow> string \<Rightarrow> userModel \<Rightarrow> user \<Rightarrow> db \<Rightarrow> store_error + db" where
  "saveUser persistOk pw m u d =
     (case u of
        AccountUser a \<Rightarrow>
          if pw = [] \<or> \<not> persistOk then Inl ValidationError
          else Inr (case m of
                      DoctorModel \<Rightarrow>
                        d\<lparr> doctors := map (\<lambda>x. if accId x = accId a then a else x) (doctors d) \<rparr>
                    | PatientModel \<Rightarrow>
                        d\<lparr> patients := map (\<lambda>x. if accId x = accId a then a else x) (patients d) \<rparr>
                    | AdminModel \<Rightarrow> d)
      | AdminUser a \<Rightarrow>
          if length pw < 6 \<or> \<not> persistOk then Inl ValidationError
          else Inr (d\<lparr> admins := map (\<lambda>x. if adminId x = adminId a then a else x) (admins d) \<rparr>))"

definition invalidOtpMessage :: string where
  "invalidOtpMessage =
     ''Invalid, expired, or already used OTP. Please request a new password reset.''"

text \<open>
  \<open>resetPasswordTrace\<close> returns the response together with the successive states
  of the database: the state at entry, then the state after each awaited write, in
  the order of the source. \<open>resetPassword\<close> is the response with the last state.
\<close>

definition resetPasswordTrace :: "time \<Rightarrow> bool \<Rightarrow> resetBody \<Rightarrow> db \<Rightarrow> response \<times> db list" where
  "resetPasswordTrace now persistOk b d =
     (if rp_password b \<noteq> rp_confirmPassword b then
        (respond 400 False ''Passwords do not match'', [d])
      else
        case find (\<lambda>x. otpEmail x = rp_email b \<and> otp x = rp_otp b
                        \<and> purpose x = ''password-reset'' \<and> \<not> verified x) (otps d) of
          None \<Rightarrow>
            (respond 400 False invalidOtpMessage,
             [d, d\<lparr> authLogs := logAuthEvent now ''password_reset_failed'' (rp_email b) False
                                   None None (Some ''Invalid or already used OTP'') (authLogs d) \<rparr>])
        | Some od \<Rightarrow>
            if now > otpExpiresAt od then
              let d1 = d\<lparr> otps := deleteOne od (otps d) \<rparr>
              in (respond 400 False ''OTP has expired. Please request a new password reset.'',
                  [d, d1,
                   d1\<lparr> authLogs := logAuthEvent now ''password_reset_failed'' (rp_email b) False
                                      None None (Some ''OTP expired'') (authLogs d1) \<rparr>])
            else
              case findOneByEmail (getUserModel (rp_role b)) (rp_email b) d of
                None \<Rightarrow>
                  (respond 400 False ''User not found'', [d, d\<lparr> otps := deleteOne od (otps d) \<rparr>])
              | Some u \<Rightarrow>
                  let d1 = d\<lparr> otps := markAsVerified od (otps d) \<rparr>
                  in case saveUser persistOk (rp_password b) (getUserModel (rp_role b))
                            (applyReset now (rp_password b) u) d1 of
                       Inl e \<Rightarrow> (respond 500 False ''Error resetting password'', [d, d1])
                     | Inr d2 \<Rightarrow>
                         let d3 = d2\<lparr> otps := deleteOne od (otps d2) \<rparr>;
                             d4 = d3\<lparr> authLogs := logAuthEvent now ''password_reset_success''
                                                     (rp_email b) True (Some (userId_of u))
                                                     (Some (getUserType (rp_role b))) None
                                                     (authLogs d3) \<rparr>
                         in (respond 200 True
                               ''Password reset successful! You can now login with your new password.'',
                             [d, d1, d2, d3, d4]))"

definition resetPassword :: "time \<Rightarrow> bool \<Rightarrow> resetBody \<Rightarrow> db \<Rightarrow> response \<times> db" where
  "resetPassword now persistOk b d =
     (fst (resetPasswordTrace now persistOk b d), last (snd (resetPasswordTrace now persistOk b d)))"

section \<open>Predicates used in the statements\<close>


section \<open>Example data\<close>

definition demoDevice :: deviceInfo where
  "demoDevice = \<lparr> browser = ''Chrome'', os = ''Linux'', device = ''Desktop'' \<rparr>"

definition demoRequest :: request where
  "demoRequest = \<lparr> clientIp = ''10.0.0.7'', clientDevice = demoDevice \<rparr>"

definition demoSession :: session where
  "demoSession = \<lparr> sid = 1, userId = 7, userType = Patient, token = ''jwt-1'',
      deviceInfo = demoDevice, ipAddress = ''10.0.0.7'', lastActivity = 1000,
      expiresAt = 1000 + days 7, isActive = True, revokedReason = None,
      createdAt = 1000, updatedAt = 1000 \<rparr>"

definition demoOtp :: otpDoc where
  "demoOtp = \<lparr> otpId = 1, otpEmail = ''pat@hc.org'', otp = ''482913'', otpRole = ''patient'',
      purpose = ''login'', verified = False, attempts = 0,
      otpExpiresAt = 600000, otpCreatedAt = 0 \<rparr>"


definition emptyDb :: db where
  "emptyDb = \<lparr> doctors = [], patients = [], admins = [], otps = [], sessions = [], authLogs = [] \<rparr>"


definition demoResetBody :: resetBody where
  "demoResetBody = \<lparr> rp_email = ''pat@hc.org'', rp_otp = ''000000'', rp_password = ''N3w!Passw0rd'',
      rp_confirmPassword = ''N3w!Passw0rd'', rp_role = ''patient'' \<rparr>"

definition demoResetOtp :: otpDoc where
  "demoResetOtp = demoOtp\<lparr> purpose := ''password-reset'' \<rparr>"

definition demoPatient :: account where
  "demoPatient = \<lparr> accId = 7, name = ''Pat'', email = ''pat@hc.org'', password = Bcrypt ''0ld!Passw0rd'',
       isEmailVerified = True, emailVerifiedAt = Some 10, passwordResetToken = None,
       passwordResetExpires = None, passwordChangedAt = None, passwordResetCount = 0,
       passwordResetUsedAt = None, accIsActive = True, lastLogin = None, lastLogout = None \<rparr>"

definition demoResetDb :: db where
  "demoResetDb = emptyDb\<lparr> patients := [demoPatient], otps := [demoResetOtp] \<rparr>"

definition demoGoodReset :: resetBody where
  "demoGoodReset = demoResetBody\<lparr> rp_otp := ''482913'' \<rparr>"

definition demoAdmin :: admin where
  "demoAdmin = \<lparr> adminId = 1, adminName = ''Root'', adminEmail = ''root@hc.org'',
       adminPassword = Bcrypt ''0ld!Adm1n'', adminRole = ''admin'', adminIsActive = True,
       lastlogin = None, adminLastLogout = None \<rparr>"

definition adminOnlyDb :: db where
  "adminOnlyDb = emptyDb\<lparr> admins := [demoAdmin] \<rparr>"

definition demoRegisterBody :: registerBody where
  "demoRegisterBody = \<lparr> rb_name = ''Eve'', rb_email = ''root@hc.org'', rb_password = ''Str0ng!Pw'',
       rb_role = ''patient'', rb_additionalValid = True \<rparr>"

definition demoPatientBody :: registerBody where
  "demoPatientBody = demoRegisterBody\<lparr> rb_email := ''pat@hc.org'' \<rparr>"

definition patientDb :: db where
  "patientDb = emptyDb\<lparr> patients := [demoPatient] \<rparr>"

definition adminResetBody :: resetBody where
  "adminResetBody = \<lparr> rp_email = ''root@hc.org'', rp_otp = ''482913'', rp_password = ''N3w!Adm1n'',
      rp_confirmPassword = ''N3w!Adm1n'', rp_role = ''admin'' \<rparr>"

definition adminResetDb :: db where
  "adminResetDb =
     snd (resetPassword 3000 True adminResetBody
       (snd (forgotPassword 2000 ''482913'' ''root@hc.org'' ''patient''
         (snd (register 1000 ''111111'' True demoRegisterBody adminOnlyDb)))))"




section \<open>Facts about the session collection\<close>

lemma enforce_tokens:
  "map token (snd (enforceSingleDevice now uid ut ss)) = map token ss"
  by (simp add: enforceSingleDevice_def Let_def comp_def)

lemma enforce_token_set:
  "token ` set (snd (enforceSingleDevice now uid ut ss)) = token ` set ss"
  using enforce_tokens [of now uid ut ss] by (metis set_map)

lemma enforce_sids:
  "map sid (snd (enforceSingleDevice now uid ut ss)) = map sid ss"
  by (simp add: enforceSingleDevice_def Let_def comp_def)




lemma generateToken_persisted:
  assumes "sessionPersistable tok r ss"
  shows "snd (snd (generateToken now isProd (Some tok) uid role (Some r) ss)) =
           snd (enforceSingleDevice now uid (roleUserType role) ss) @
             [\<lparr> sid = newObjectId (map sid ss), userId = uid,
                userType = roleUserType role, token = tok,
                deviceInfo = clientDevice r, ipAddress = clientIp r,
                lastActivity = now, expiresAt = now + days 7, isActive = True,
                revokedReason = None, createdAt = now, updatedAt = now \<rparr>]"
  using assms
  by (simp add: generateToken_def createSession_def sessionPersistable_def Let_def
      enforce_token_set enforce_sids)

lemma generateToken_not_persisted:
  assumes "\<not> sessionPersistable tok r ss"
  shows "snd (snd (generateToken now isProd (Some tok) uid role (Some r) ss)) =
           snd (enforceSingleDevice now uid (roleUserType role) ss)"
  using assms
  by (auto simp: generateToken_def createSession_def sessionPersistable_def Let_def
      enforce_token_set)

lemma fold_max_ge: "(a::nat) \<le> fold max xs a"
proof (induction xs arbitrary: a)
  case Nil
  show ?case by simp
next
  case (Cons x xs)
  have "a \<le> max x a" by simp
  also have "max x a \<le> fold max xs (max x a)" by (rule Cons.IH)
  finally show ?case by simp
qed

lemma fold_max_mem: "x \<in> set xs \<Longrightarrow> (x::nat) \<le> fold max xs a"
proof (induction xs arbitrary: a)
  case Nil
  then show ?case by simp
next
  case (Cons y ys)
  show ?case
  proof (cases "x = y")
    case True
    have "x \<le> max y a" using True by simp
    also have "max y a \<le> fold max ys (max y a)" by (rule fold_max_ge)
    finally show ?thesis by simp
  next
    case False
    with Cons.prems have "x \<in> set ys" by simp
    then show ?thesis using Cons.IH by simp
  qed
qed

lemma newObjectId_fresh: "newObjectId ids \<notin> set ids"
proof
  assume "newObjectId ids \<in> set ids"
  then have "newObjectId ids \<le> fold max ids 0" by (rule fold_max_mem)
  then show False by (simp add: newObjectId_def)
qed

section \<open>Expiry sweeps leave live sessions alone\<close>

text \<open>
  C10. A session with \<open>isActive = true\<close> whose \<open>expiresAt\<close> lies in the future is
  untouched by both background sweeps: \<open>cleanupExpired\<close> leaves the record as it is
  (it only updates active sessions whose \<open>expiresAt\<close> is in the past) and
  \<open>deleteOldSessions\<close>, for any retention period, does not delete it (it only
  deletes sessions with \<open>isActive = false\<close>). The record below carries its id and
  its \<open>isActive\<close> flag, so membership afterwards means it is neither removed nor
  deactivated.
\<close>

theorem sweeps_keep_live_sessions:
  assumes "s \<in> set ss" and "isActive s" and "expiresAt s > now"
  shows "s \<in> set (cleanupExpired now ss) \<and> s \<in> set (deleteOldSessions now daysOld ss)"
proof
  from assms have "(if expiresAt s < now \<and> isActive s
                    then s\<lparr> isActive := False, updatedAt := now \<rparr> else s) = s"
    by simp
  with assms(1) show "s \<in> set (cleanupExpired now ss)"
    unfolding cleanupExpired_def set_map by (rule rev_image_eqI [OF _ sym])
next
  from assms(1,2) show "s \<in> set (deleteOldSessions now daysOld ss)"
    by (simp add: deleteOldSessions_def)
qed

theorem sweeps_keep_live_sessions_witness:
  "demoSession \<in> set [demoSession] \<and> isActive demoSession \<and> expiresAt demoSession > 5000
   \<and> demoSession \<in> set (cleanupExpired 5000 [demoSession])
   \<and> demoSession \<in> set (deleteOldSessions 5000 30 [demoSession])"
  using sweeps_keep_live_sessions [of demoSession "[demoSession]" 5000 30]
  by (simp add: demoSession_def days_def)

section \<open>Single-device enforcement at login\<close>




section \<open>Token issuance and session creation\<close>

text \<open>
  C7, as stated, fails: called without a request, \<open>generateToken\<close> returns the
  token and sets the cookie while the session collection is unchanged and holds no
  session with that token.
\<close>

theorem token_issued_without_session:
  "fst (generateToken 5000 False (Some ''jwt-2'') 7 ''patient'' None [demoSession]) = Inr ''jwt-2''
   \<and> map_option cookieValue (fst (snd (generateToken 5000 False (Some ''jwt-2'') 7 ''patient'' None [demoSession]))) = Some ''jwt-2''
   \<and> snd (snd (generateToken 5000 False (Some ''jwt-2'') 7 ''patient'' None [demoSession])) = [demoSession]
   \<and> ''jwt-2'' \<notin> set (map token [demoSession])"
  by (simp add: generateToken_def demoSession_def)

text \<open>
  C7, amended. Whenever signing succeeds \<open>generateToken\<close> returns the token and
  sets the cookie to it. The call inserts a session bound to that token if and only
  if a request was supplied and the record passes the schema checks and the unique
  index on \<open>token\<close>; otherwise the token is issued all the same and no session is
  created, since the session error is swallowed.
\<close>

theorem token_issued_session_iff:
  "fst (generateToken now isProd (Some tok) uid role req ss) = Inr tok
   \<and> map_option cookieValue (fst (snd (generateToken now isProd (Some tok) uid role req ss))) = Some tok
   \<and> ((\<exists>s \<in> set (snd (snd (generateToken now isProd (Some tok) uid role req ss))).
          token s = tok \<and> sid s \<notin> set (map sid ss))
        \<longleftrightarrow> (\<exists>r. req = Some r \<and> sessionPersistable tok r ss))
   \<and> snd (snd (generateToken now isProd None uid role req ss)) = ss"
proof -
  let ?ss' = "snd (snd (generateToken now isProd (Some tok) uid role req ss))"
  have z: "snd (snd (generateToken now isProd None uid role req ss)) = ss"
    by (simp add: generateToken_def)
  have a: "fst (generateToken now isProd (Some tok) uid role req ss) = Inr tok"
    by (simp add: generateToken_def Let_def)
  have b: "map_option cookieValue (fst (snd (generateToken now isProd (Some tok) uid role req ss))) = Some tok"
    by (simp add: generateToken_def Let_def)
  have c: "(\<exists>s \<in> set ?ss'. token s = tok \<and> sid s \<notin> set (map sid ss))
        \<longleftrightarrow> (\<exists>r. req = Some r \<and> sessionPersistable tok r ss)"
  proof (cases req)
    case None
    then have "?ss' = ss" by (simp add: generateToken_def Let_def)
    with None show ?thesis by auto
  next
    case (Some r)
    show ?thesis
    proof (cases "sessionPersistable tok r ss")
      case True
      have "newObjectId (map sid ss) \<notin> set (map sid ss)" by (rule newObjectId_fresh)
      then show ?thesis
        using True Some generateToken_persisted [OF True, of now isProd uid role] by auto
    next
      case False
      have "set (map sid ?ss') = set (map sid ss)"
        using Some generateToken_not_persisted [OF False, of now isProd uid role]
        by (simp add: enforce_sids)
      then have "\<forall>s \<in> set ?ss'. sid s \<in> set (map sid ss)" by auto
      with False Some show ?thesis by auto
    qed
  qed
  from a b c z show ?thesis by blast
qed

theorem token_issued_session_iff_witness:
  "(\<exists>s \<in> set (snd (snd (generateToken 5000 False (Some ''jwt-2'') 7 ''patient'' (Some demoRequest) [demoSession]))).
          token s = ''jwt-2'' \<and> sid s \<notin> set (map sid [demoSession]))
   \<and> \<not> (\<exists>s \<in> set (snd (snd (generateToken 5000 False (Some ''jwt-1'') 7 ''patient'' (Some demoRequest) [demoSession]))).
          token s = ''jwt-1'' \<and> sid s \<notin> set (map sid [demoSession]))"
  using token_issued_session_iff [of 5000 False "''jwt-2''" 7 "''patient''" "Some demoRequest" "[demoSession]"]
        token_issued_session_iff [of 5000 False "''jwt-1''" 7 "''patient''" "Some demoRequest" "[demoSession]"]
  by (simp add: demoSession_def demoRequest_def sessionPersistable_def)

section \<open>Facts about passcodes and password resets\<close>

lemma deleteOne_removes: "otpId d \<notin> otpId ` set (deleteOne d ds)"
  by (auto simp: deleteOne_def)

lemma latestOtp_single: "latestOtp [d] = Some d"
  by simp


lemma resetPassword_no_match:
  assumes "find (\<lambda>x. otpEmail x = rp_email b \<and> otp x = rp_otp b
                     \<and> purpose x = ''password-reset'' \<and> \<not> verified x) (otps d) = None"
  shows "resetPassword now ok b d =
           (if rp_password b \<noteq> rp_confirmPassword b
            then (respond 400 False ''Passwords do not match'', d)
            else (respond 400 False invalidOtpMessage,
                  d\<lparr> authLogs := logAuthEvent now ''password_reset_failed'' (rp_email b) False
                                     None None (Some ''Invalid or already used OTP'') (authLogs d) \<rparr>))"
  using assms by (simp add: resetPassword_def resetPasswordTrace_def)




lemma expired_record_is_deleted:
  assumes "latestOtp (filter (\<lambda>x. otpEmail x = e \<and> purpose x = p \<and> \<not> verified x) ds) = Some d"
      and "isExpired now d"
  shows "fst (verifyOTP_static now e code p ds) = OtpExpired
       \<and> snd (verifyOTP_static now e code p ds) = deleteOne d ds"
  using assms by (simp add: verifyOTP_static_def)

lemma register_ignores_admins:
  "fst (register now code emailOk b (d\<lparr> admins := as \<rparr>)) = fst (register now code emailOk b d)"
  by (simp add: register_def Let_def roleAccounts_def setRoleAccounts_def
      split: sum.splits prod.splits)

section \<open>Attempt exhaustion\<close>

text \<open>
  C3. Let \<open>d\<close> be the record \<open>OTP.verifyOTP\<close> selects for (email, purpose), the
  unverified one created last, with three failed attempts already counted and
  still within its validity window (the expiry check comes first in the source).
  Then the next attempt fails with the attempts-exhausted outcome whatever code is
  submitted, the correct code \<open>otp d\<close> included, and the record is deleted: the
  exhaustion check runs before the code comparison.
\<close>

theorem exhausted_attempts_beat_correct_code:
  assumes "latestOtp (filter (\<lambda>x. otpEmail x = e \<and> purpose x = p \<and> \<not> verified x) ds) = Some d"
      and "attempts d \<ge> 3"
      and "\<not> isExpired now d"
  shows "fst (verifyOTP_static now e code p ds) = OtpAttemptsExceeded
       \<and> fst (verifyOTP_static now e (otp d) p ds) = OtpAttemptsExceeded
       \<and> snd (verifyOTP_static now e code p ds) = deleteOne d ds
       \<and> otpId d \<notin> set (map otpId (snd (verifyOTP_static now e code p ds)))"
  using assms by (simp add: verifyOTP_static_def canAttempt_def deleteOne_removes)

theorem exhausted_attempts_beat_correct_code_witness:
  "snd (verifyOTP_static 3000 ''pat@hc.org'' ''000000'' ''login''
     (snd (verifyOTP_static 2000 ''pat@hc.org'' ''000000'' ''login''
       (snd (verifyOTP_static 1000 ''pat@hc.org'' ''000000'' ''login'' [demoOtp])))))
     = [demoOtp\<lparr> attempts := 3 \<rparr>]
   \<and> fst (verifyOTP_static 4000 ''pat@hc.org'' ''482913'' ''login'' [demoOtp\<lparr> attempts := 3 \<rparr>])
       = OtpAttemptsExceeded
   \<and> snd (verifyOTP_static 4000 ''pat@hc.org'' ''482913'' ''login'' [demoOtp\<lparr> attempts := 3 \<rparr>]) = []"
  using exhausted_attempts_beat_correct_code
          [of "''pat@hc.org''" "''login''" "[demoOtp\<lparr> attempts := 3 \<rparr>]" "demoOtp\<lparr> attempts := 3 \<rparr>"
              4000 "''482913''"]
  by (simp add: demoOtp_def verifyOTP_static_def isExpired_def canAttempt_def
      incrementAttempts_def deleteOne_def)


section \<open>The passcode is consumed before the user lookup\<close>



section \<open>Wrong codes at the reset-password endpoint\<close>

text \<open>
  C8, as stated, fails: the call with a code that matches no record answers 400
  and leaves the passcodes alone, but it does not leave all state unchanged, since
  it appends a \<open>password_reset_failed\<close> entry to the audit log.
\<close>

theorem wrong_reset_code_writes_audit_log:
  "map otp (otps (emptyDb\<lparr> otps := [demoResetOtp] \<rparr>)) = [''482913'']
   \<and> rp_otp demoResetBody = ''000000''
   \<and> status (fst (resetPassword 1000 True demoResetBody (emptyDb\<lparr> otps := [demoResetOtp] \<rparr>))) = 400
   \<and> snd (resetPassword 1000 True demoResetBody (emptyDb\<lparr> otps := [demoResetOtp] \<rparr>))
       \<noteq> emptyDb\<lparr> otps := [demoResetOtp] \<rparr>
   \<and> map action (authLogs (snd (resetPassword 1000 True demoResetBody
                                  (emptyDb\<lparr> otps := [demoResetOtp] \<rparr>))))
       = [''password_reset_failed'']"
  by (simp add: resetPassword_def resetPasswordTrace_def demoResetBody_def emptyDb_def
      demoResetOtp_def demoOtp_def respond_def invalidOtpMessage_def logAuthEvent_def
      authActions_def)

text \<open>
  C8, amended. When the submitted code matches no unverified password-reset
  record of the e-mail, \<open>resetPassword\<close> answers 400 and changes nothing but the
  audit log: accounts, passcodes (their attempts counters included) and sessions
  are as before, and the log is unchanged when the two passwords differ and
  otherwise gains one \<open>password_reset_failed\<close> entry. Repeating the wrong guess
  any number of times leaves the passcodes unchanged, so the three-attempt cap
  does not apply to this endpoint.
\<close>

theorem wrong_reset_code_frame:
  assumes "find (\<lambda>x. otpEmail x = rp_email b \<and> otp x = rp_otp b
                     \<and> purpose x = ''password-reset'' \<and> \<not> verified x) (otps d) = None"
  shows "status (fst (resetPassword now ok b d)) = 400
       \<and> otps (snd (resetPassword now ok b d)) = otps d
       \<and> map attempts (otps (snd (resetPassword now ok b d))) = map attempts (otps d)
       \<and> snd (resetPassword now ok b d)
           = d\<lparr> authLogs := authLogs (snd (resetPassword now ok b d)) \<rparr>
       \<and> authLogs (snd (resetPassword now ok b d))
           = (if rp_password b \<noteq> rp_confirmPassword b then authLogs d
              else logAuthEvent now ''password_reset_failed'' (rp_email b) False None None
                     (Some ''Invalid or already used OTP'') (authLogs d))
       \<and> otps (((\<lambda>s. snd (resetPassword now ok b s)) ^^ n) d) = otps d"
proof -
  have one: "\<And>s. otps s = otps d \<Longrightarrow> otps (snd (resetPassword now ok b s)) = otps d"
  proof -
    fix s :: db assume s: "otps s = otps d"
    with assms have "find (\<lambda>x. otpEmail x = rp_email b \<and> otp x = rp_otp b
                     \<and> purpose x = ''password-reset'' \<and> \<not> verified x) (otps s) = None" by simp
    from resetPassword_no_match [OF this, of now ok] s
    show "otps (snd (resetPassword now ok b s)) = otps d" by simp
  qed
  have iter: "otps (((\<lambda>s. snd (resetPassword now ok b s)) ^^ n) d) = otps d"
    by (induction n) (simp_all add: one)
  show ?thesis
    using resetPassword_no_match [OF assms, of now ok] iter
    by (simp add: respond_def)
qed

theorem wrong_reset_code_frame_witness:
  "status (fst (resetPassword 1000 True demoResetBody (emptyDb\<lparr> otps := [demoResetOtp] \<rparr>))) = 400
   \<and> otps (((\<lambda>s. snd (resetPassword 1000 True demoResetBody s)) ^^ 5)
            (emptyDb\<lparr> otps := [demoResetOtp] \<rparr>)) = [demoResetOtp]"
  using wrong_reset_code_frame [of demoResetBody "emptyDb\<lparr> otps := [demoResetOtp] \<rparr>" 1000 True 5]
  by (simp add: demoResetBody_def emptyDb_def demoResetOtp_def demoOtp_def)


section \<open>The passcode is marked verified before the password is written\<close>



lemma demo_failed_reset_not_reusable:
  "status (fst (resetPassword 1000 False demoGoodReset demoResetDb)) = 500
   \<and> map verified (otps (snd (resetPassword 1000 False demoGoodReset demoResetDb))) = [True]
   \<and> patients (snd (resetPassword 1000 False demoGoodReset demoResetDb)) = [demoPatient]
   \<and> status (fst (resetPassword 2000 True demoGoodReset
                (snd (resetPassword 1000 False demoGoodReset demoResetDb)))) = 400
   \<and> patients (snd (resetPassword 2000 True demoGoodReset
                (snd (resetPassword 1000 False demoGoodReset demoResetDb)))) = [demoPatient]"
  by (simp add: resetPassword_def resetPasswordTrace_def demoGoodReset_def demoResetBody_def
      demoResetDb_def emptyDb_def demoResetOtp_def demoOtp_def demoPatient_def
      findOneByEmail_def getUserModel_def saveUser_def applyReset_def markAsVerified_def
      respond_def logAuthEvent_def authActions_def invalidOtpMessage_def)

section \<open>Duplicate e-mail at registration\<close>

text \<open>
  C5, as stated, fails: an e-mail that exists in the Admin collection only is
  accepted, and a patient account with that e-mail is created.
\<close>

theorem register_accepts_admin_email:
  "map adminEmail (admins adminOnlyDb) = [''root@hc.org'']
   \<and> status (fst (register 1000 ''111111'' True demoRegisterBody adminOnlyDb)) = 201
   \<and> success (fst (register 1000 ''111111'' True demoRegisterBody adminOnlyDb))
   \<and> map email (patients (snd (register 1000 ''111111'' True demoRegisterBody adminOnlyDb)))
       = [''root@hc.org'']"
  by (simp add: register_def adminOnlyDb_def emptyDb_def demoAdmin_def demoRegisterBody_def
      roleAccounts_def setRoleAccounts_def createOTP_def createOtpDoc_def otpRoles_def
      otpPurposes_def newAccount_def respond_def Let_def)

text \<open>
  C5, amended. A registration whose e-mail already exists in the Doctor or in the
  Patient collection fails with 400 \<open>User already exists with this email\<close> and
  creates no account and no passcode. The uniqueness check covers these two
  collections; the Admin collection is not consulted, and its content has no
  influence on the response.
\<close>

theorem register_duplicate_email:
  "(rb_email b \<in> set (map email (doctors d)) \<or> rb_email b \<in> set (map email (patients d)) \<longrightarrow>
      fst (register now code emailOk b d)
           = respond 400 False ''User already exists with this email''
       \<and> doctors (snd (register now code emailOk b d)) = doctors d
       \<and> patients (snd (register now code emailOk b d)) = patients d
       \<and> admins (snd (register now code emailOk b d)) = admins d
       \<and> otps (snd (register now code emailOk b d)) = otps d
       \<and> sessions (snd (register now code emailOk b d)) = sessions d)
   \<and> fst (register now code emailOk b (d\<lparr> admins := as \<rparr>)) = fst (register now code emailOk b d)"
proof (intro conjI impI)
  assume "rb_email b \<in> set (map email (doctors d)) \<or> rb_email b \<in> set (map email (patients d))"
  then have ex: "find (\<lambda>a. email a = rb_email b) (doctors d) \<noteq> None
            \<or> find (\<lambda>a. email a = rb_email b) (patients d) \<noteq> None"
    by (auto simp: find_None_iff)
  then have r: "register now code emailOk b d =
          (respond 400 False ''User already exists with this email'',
            d\<lparr> authLogs := logAuthEvent now ''register'' (rb_email b) False None None
                               (Some ''Email already registered'') (authLogs d) \<rparr>)"
    unfolding register_def Let_def by (simp only: if_True)
  show "fst (register now code emailOk b d) = respond 400 False ''User already exists with this email''"
    and "doctors (snd (register now code emailOk b d)) = doctors d"
    and "patients (snd (register now code emailOk b d)) = patients d"
    and "admins (snd (register now code emailOk b d)) = admins d"
    and "otps (snd (register now code emailOk b d)) = otps d"
    and "sessions (snd (register now code emailOk b d)) = sessions d"
    unfolding r by simp_all
next
  show "fst (register now code emailOk b (d\<lparr> admins := as \<rparr>)) = fst (register now code emailOk b d)"
    by (rule register_ignores_admins)
qed

theorem register_duplicate_email_witness:
  "fst (register 1000 ''111111'' True demoPatientBody (emptyDb\<lparr> patients := [demoPatient] \<rparr>))
           = respond 400 False ''User already exists with this email''
   \<and> patients (snd (register 1000 ''111111'' True demoPatientBody (emptyDb\<lparr> patients := [demoPatient] \<rparr>)))
       = [demoPatient]
   \<and> fst (register 1000 ''111111'' True demoPatientBody
          (emptyDb\<lparr> patients := [demoPatient], admins := [demoAdmin] \<rparr>))
       = respond 400 False ''User already exists with this email''"
  using register_duplicate_email [of demoPatientBody "emptyDb\<lparr> patients := [demoPatient] \<rparr>"
                                     1000 "''111111''" True "[demoAdmin]"]
  by (simp add: demoPatientBody_def demoRegisterBody_def emptyDb_def demoPatient_def)

section \<open>Forgot password for an unknown e-mail\<close>

text \<open>
  C4 at a failing input. For an e-mail with no account the endpoint answers 400
  with \<open>success: false\<close> and the generic message; for an existing account it
  answers 200 with \<open>success: true\<close> and another message. The two responses
  differ, so the response tells whether the account exists.
\<close>

theorem forgotPassword_unknown_email_is_400:
  "fst (forgotPassword 1000 ''482913'' ''nobody@hc.org'' ''patient'' patientDb)
      = \<lparr> status = 400, success = False, message = genericResetMessage, resCookie = None \<rparr>
   \<and> fst (forgotPassword 1000 ''482913'' ''pat@hc.org'' ''patient'' patientDb)
      = \<lparr> status = 200, success = True, message = otpSentMessage, resCookie = None \<rparr>"
  by (simp add: forgotPassword_def patientDb_def emptyDb_def demoPatient_def findOneByEmail_def
      getUserModel_def resetCount_of_def createOtpDoc_def otpRoles_def otpPurposes_def respond_def
      Let_def)

section \<open>The lifetime reset limit\<close>

text \<open>
  For doctors and patients the limit works: an account whose counter is at least 1
  gets 403 from \<open>forgotPassword\<close> at any time, and nothing but the audit log
  changes.
\<close>

lemma forgotPassword_limit_reached:
  assumes "findOneByEmail (getUserModel role) e d = Some (AccountUser a)"
      and "passwordResetCount a \<ge> 1"
  shows "fst (forgotPassword now code e role d) = respond 403 False resetLimitMessage
       \<and> otps (snd (forgotPassword now code e role d)) = otps d
       \<and> doctors (snd (forgotPassword now code e role d)) = doctors d
       \<and> patients (snd (forgotPassword now code e role d)) = patients d"
  using assms by (simp add: forgotPassword_def resetCount_of_def)

lemma applyReset_increments:
  "applyReset now pw (AccountUser a) = AccountUser a' \<Longrightarrow>
     passwordResetCount a' = passwordResetCount a + 1"
  by (auto simp: applyReset_def Let_def)

text \<open>
  C2 at a failing input. An administrator \<open>root@hc.org\<close> exists; a patient
  registers with the same e-mail (registration does not look at the Admin
  collection) and requests a password reset; the reset is then completed with
  role \<open>admin\<close>. The reset succeeds with 200 and replaces the administrator's
  password, but the Admin document has no reset counter, so nothing is counted,
  and the next \<open>forgotPassword\<close> for the administrator does not answer 403 (it
  answers 500, because the passcode schema rejects the role \<open>admin\<close>).
\<close>

theorem admin_reset_is_not_counted:
  "status (fst (resetPassword 3000 True adminResetBody
       (snd (forgotPassword 2000 ''482913'' ''root@hc.org'' ''patient''
         (snd (register 1000 ''111111'' True demoRegisterBody adminOnlyDb)))))) = 200
   \<and> admins adminResetDb = [demoAdmin\<lparr> adminPassword := Bcrypt ''N3w!Adm1n'' \<rparr>]
   \<and> map_option resetCount_of (findOneByEmail (getUserModel ''admin'') ''root@hc.org'' adminResetDb)
       = Some None
   \<and> status (fst (forgotPassword 4000 ''222222'' ''root@hc.org'' ''admin'' adminResetDb)) = 500"
  by (simp add: adminResetDb_def resetPassword_def resetPasswordTrace_def forgotPassword_def
      register_def adminOnlyDb_def emptyDb_def demoAdmin_def demoRegisterBody_def adminResetBody_def
      roleAccounts_def setRoleAccounts_def createOTP_def createOtpDoc_def otpRoles_def
      otpPurposes_def newAccount_def respond_def Let_def findOneByEmail_def getUserModel_def
      resetCount_of_def saveUser_def applyReset_def markAsVerified_def deleteOne_def
      newObjectId_def logAuthEvent_def authActions_def getUserType_def userId_of_def)

theorem admin_reset_is_not_counted_witness:
  "status (fst (forgotPassword 4000 ''222222'' ''root@hc.org'' ''admin'' adminResetDb)) \<noteq> 403"
  using admin_reset_is_not_counted by simp

end
